theory Spec2Isabelle
  imports Complex_Main "HOL-Library.Char_ord" "HOL-Library.List_Lexorder"
begin

section \<open>Strings\<close>

text \<open>
  Python strings are modelled as \<^typ>\<open>string\<close>; the model covers ASCII text.
  \<open>lower\<close> is \<open>str.lower\<close>, \<open>strip\<close> is \<open>str.strip\<close> with no argument,
  \<open>str_in x y\<close> is the Python expression \<open>x in y\<close> on two strings and
  \<open>split\<close> is \<open>str.split\<close> with no argument.
\<close>

definition ascii_upper :: string where
  "ascii_upper = ''ABCDEFGHIJKLMNOPQRSTUVWXYZ''"

definition ascii_lower :: string where
  "ascii_lower = ''abcdefghijklmnopqrstuvwxyz''"

definition lower_char :: "char \<Rightarrow> char" where
  "lower_char c = (case map_of (zip ascii_upper ascii_lower) c of Some d \<Rightarrow> d | None \<Rightarrow> c)"

definition lower :: "string \<Rightarrow> string" where
  "lower s = map lower_char s"

definition is_space :: "char \<Rightarrow> bool" where
  "is_space c = (c \<in> set [CHR '' '', CHR 0x09, CHR 0x0A, CHR 0x0B, CHR 0x0C, CHR 0x0D,
                            CHR 0x1C, CHR 0x1D, CHR 0x1E, CHR 0x1F])"

definition strip :: "string \<Rightarrow> string" where
  "strip s = rev (dropWhile is_space (rev (dropWhile is_space s)))"

fun starts_with :: "string \<Rightarrow> string \<Rightarrow> bool" where
  "starts_with [] ys = True"
| "starts_with (x # xs) [] = False"
| "starts_with (x # xs) (y # ys) = (x = y \<and> starts_with xs ys)"

fun str_in :: "string \<Rightarrow> string \<Rightarrow> bool" where
  "str_in xs [] = (xs = [])"
| "str_in xs (y # ys) = (starts_with xs (y # ys) \<or> str_in xs ys)"

fun split_from :: "string \<Rightarrow> string \<Rightarrow> string list" where
  "split_from cur [] = (if cur = [] then [] else [cur])"
| "split_from cur (c # cs) =
     (if is_space c then (if cur = [] then split_from [] cs else cur # split_from [] cs)
      else split_from (cur @ [c]) cs)"

definition split :: "string \<Rightarrow> string list" where
  "split s = split_from [] s"

section \<open>The generative backend\<close>

text \<open>
  \<open>OllamaService\<close> talks to a server over HTTP. One call of a service method makes
  at most one call of \<open>is_available\<close> and of \<open>generate\<close>, so the backend is the
  record of what these calls return. A successful \<open>generate\<close> carries the response
  text and what \<open>re.search(r'\{[\s\S]*\}', text)\<close> followed by \<open>json.loads\<close> makes
  of it; the decoded object is taken to have the shape the prompt asks for, with any
  key possibly missing.
\<close>

datatype 'j json_extract = NoJsonMatch | JsonDecodeError | JsonValue 'j

datatype 'j generate_result = GenFailed string | GenOk string "'j json_extract"

record 'j ollama =
  is_available :: bool
  generate :: "'j generate_result"
  embed :: "string \<Rightarrow> real list option"

datatype backend_call = CallIsAvailable | CallGenerate

section \<open>Drug interaction checker (drug\_checker.py)\<close>

definition KNOWN_INTERACTIONS :: "((string \<times> string) \<times> (string \<times> string)) list" where
  "KNOWN_INTERACTIONS =
    [((''warfarin'', ''aspirin''),
        (''high'', ''Increased risk of bleeding. Both drugs affect blood clotting.'')),
     ((''warfarin'', ''ibuprofen''),
        (''high'', ''NSAIDs increase bleeding risk with warfarin.'')),
     ((''metformin'', ''alcohol''),
        (''moderate'', ''Alcohol can increase risk of lactic acidosis with metformin.'')),
     ((''lisinopril'', ''potassium''),
        (''moderate'', ''ACE inhibitors can increase potassium levels. Monitor closely.'')),
     ((''simvastatin'', ''grapefruit''),
        (''moderate'', ''Grapefruit can increase statin levels, raising risk of side effects.'')),
     ((''methotrexate'', ''ibuprofen''),
        (''high'', ''NSAIDs can increase methotrexate toxicity.'')),
     ((''ssri'', ''maoi''),
        (''critical'', ''Serotonin syndrome risk. Never combine SSRIs with MAOIs.'')),
     ((''fluoxetine'', ''tramadol''),
        (''high'', ''Risk of serotonin syndrome and seizures.'')),
     ((''ciprofloxacin'', ''antacids''),
        (''moderate'', ''Antacids reduce ciprofloxacin absorption. Take 2 hours apart.'')),
     ((''digoxin'', ''amiodarone''),
        (''high'', ''Amiodarone increases digoxin levels. Reduce digoxin dose.''))]"

definition DRUG_CLASSES :: "(string \<times> string list) list" where
  "DRUG_CLASSES =
    [(''ssri'', [''fluoxetine'', ''sertraline'', ''paroxetine'', ''citalopram'', ''escitalopram'']),
     (''maoi'', [''phenelzine'', ''tranylcypromine'', ''selegiline'']),
     (''nsaid'', [''ibuprofen'', ''naproxen'', ''diclofenac'', ''celecoxib'', ''aspirin'']),
     (''statin'', [''simvastatin'', ''atorvastatin'', ''rosuvastatin'', ''pravastatin'']),
     (''ace_inhibitor'', [''lisinopril'', ''enalapril'', ''ramipril'', ''captopril'']),
     (''blood_thinner'', [''warfarin'', ''heparin'', ''rivaroxaban'', ''apixaban''])]"

datatype source = database | allergy_check | ai_analysis

text \<open>
  A finding is one dictionary of the \<open>warnings\<close> list. The findings built by the
  checker have all four keys; an interaction taken over from the LLM reply may lack
  \<open>severity\<close> or \<open>warning\<close>.
\<close>

record finding =
  drugs :: "string list"
  severity :: "string option"
  warning :: "string option"
  source :: source

definition normalize_drug_name :: "string \<Rightarrow> string" where
  "normalize_drug_name drug = strip (lower drug)"

fun first_class :: "(string \<times> string list) list \<Rightarrow> string \<Rightarrow> string option" where
  "first_class [] d = None"
| "first_class ((drug_class, ds) # rest) d =
     (if d \<in> set ds then Some drug_class else first_class rest d)"

definition get_drug_class :: "string \<Rightarrow> string option" where
  "get_drug_class drug = first_class DRUG_CLASSES (normalize_drug_name drug)"

definition with_classes :: "string list \<Rightarrow> string list" where
  "with_classes normalized =
     normalized @
     concat (map (\<lambda>drug. case get_drug_class drug of
                            Some drug_class \<Rightarrow> (if drug_class \<noteq> [] then [drug_class] else [])
                          | None \<Rightarrow> []) normalized)"

definition check_pair :: "string \<Rightarrow> string \<Rightarrow> finding list" where
  "check_pair drug1 drug2 =
     (case map_of KNOWN_INTERACTIONS (drug1, drug2) of
        Some (sev, warn) \<Rightarrow>
          [\<lparr>drugs = [drug1, drug2], severity = Some sev, warning = Some warn, source = database\<rparr>]
      | None \<Rightarrow>
          (case map_of KNOWN_INTERACTIONS (drug2, drug1) of
             Some (sev, warn) \<Rightarrow>
               [\<lparr>drugs = [drug1, drug2], severity = Some sev, warning = Some warn,
                 source = database\<rparr>]
           | None \<Rightarrow> []))"

fun check_all_pairs :: "string list \<Rightarrow> finding list" where
  "check_all_pairs [] = []"
| "check_all_pairs (drug1 # rest) = concat (map (check_pair drug1) rest) @ check_all_pairs rest"

definition check_known_interactions :: "string list \<Rightarrow> finding list" where
  "check_known_interactions medications =
     check_all_pairs (with_classes (map normalize_drug_name medications))"

text \<open>The decoded reply of the LLM: every key of the requested JSON object may be missing.\<close>

record llm_interaction =
  i_drugs :: "string list option"
  i_severity :: "string option"
  i_warning :: "string option"

record llm_data =
  interactions :: "llm_interaction list option"
  allergy_concerns :: "string list option"
  d_general_advice :: "string option"
  other_keys :: bool

datatype llm_result = LlmFailure string | LlmSuccess llm_data

definition check_with_llm :: "llm_data ollama \<Rightarrow> llm_result" where
  "check_with_llm backend =
     (case generate backend of
        GenFailed err \<Rightarrow> LlmFailure err
      | GenOk response_text NoJsonMatch \<Rightarrow> LlmFailure ''Could not parse LLM response''
      | GenOk response_text JsonDecodeError \<Rightarrow> LlmFailure ''Invalid JSON in LLM response''
      | GenOk response_text (JsonValue parsed) \<Rightarrow> LlmSuccess parsed)"

definition nonempty_dict :: "llm_data \<Rightarrow> bool" where
  "nonempty_dict d =
     (interactions d \<noteq> None \<or> allergy_concerns d \<noteq> None \<or> d_general_advice d \<noteq> None
      \<or> other_keys d)"

definition allergy_findings :: "string list \<Rightarrow> string list \<Rightarrow> finding list" where
  "allergy_findings patient_allergies medications =
     concat (map (\<lambda>allergy.
       concat (map (\<lambda>med.
         if str_in (lower allergy) (lower med) \<or> str_in (lower med) (lower allergy)
         then [\<lparr>drugs = [med], severity = Some ''critical'',
                warning = Some (''Patient has documented allergy to '' @ allergy @ ''!''),
                source = allergy_check\<rparr>]
         else []) medications)) patient_allergies)"

definition existing_pairs :: "finding list \<Rightarrow> string list list" where
  "existing_pairs ws = map (\<lambda>w. sort (drugs w)) (filter (\<lambda>w. length (drugs w) = 2) ws)"

definition llm_drugs :: "llm_interaction \<Rightarrow> string list" where
  "llm_drugs interaction = (case i_drugs interaction of Some ds \<Rightarrow> ds | None \<Rightarrow> [])"

definition llm_interaction_findings :: "string list list \<Rightarrow> llm_interaction list \<Rightarrow> finding list" where
  "llm_interaction_findings existing xs =
     concat (map (\<lambda>interaction.
       let pair = sort (llm_drugs interaction)
       in if pair \<notin> set existing \<and> length pair = 2
          then [\<lparr>drugs = llm_drugs interaction, severity = i_severity interaction,
                 warning = i_warning interaction, source = ai_analysis\<rparr>]
          else []) xs)"

definition llm_concern_findings :: "string list \<Rightarrow> finding list" where
  "llm_concern_findings concerns =
     concat (map (\<lambda>concern.
       if concern \<noteq> []
       then [\<lparr>drugs = [], severity = Some ''moderate'', warning = Some concern,
              source = ai_analysis\<rparr>]
       else []) concerns)"

definition severities :: "(string \<times> nat) list" where
  "severities = [(''none'', 0), (''low'', 1), (''moderate'', 2), (''high'', 3), (''critical'', 4)]"

definition severity_rank :: "string \<Rightarrow> nat" where
  "severity_rank sev = (case map_of severities sev of Some n \<Rightarrow> n | None \<Rightarrow> 0)"

definition finding_severity :: "finding \<Rightarrow> string" where
  "finding_severity w = (case severity w of Some sev \<Rightarrow> sev | None \<Rightarrow> ''none'')"

fun max_severity :: "string \<Rightarrow> finding list \<Rightarrow> string" where
  "max_severity cur [] = cur"
| "max_severity cur (w # ws) =
     max_severity (if severity_rank (finding_severity w) > severity_rank cur
                   then finding_severity w else cur) ws"

record interaction_result =
  safe :: bool
  warnings :: "finding list"
  overall_severity :: string
  medications_checked :: "string list"
  patient_allergies :: "string list option"
  general_advice :: "string option"

definition findings_before_llm :: "string list \<Rightarrow> string list option \<Rightarrow> finding list" where
  "findings_before_llm medications allergies =
     check_known_interactions medications @
     (case allergies of
        Some al \<Rightarrow> (if al \<noteq> [] then allergy_findings al medications else [])
      | None \<Rightarrow> [])"

definition check_interactions ::
  "llm_data ollama \<Rightarrow> string list \<Rightarrow> string list option \<Rightarrow> bool
     \<Rightarrow> interaction_result \<times> backend_call list" where
  "check_interactions backend medications allergies use_llm =
     (if medications = [] then
        (\<lparr>safe = True, warnings = [], overall_severity = ''none'', medications_checked = [],
          patient_allergies = None, general_advice = None\<rparr>, [])
      else
        let before_llm = findings_before_llm medications allergies;
            calls1 = (if use_llm then [CallIsAvailable] else []);
            (ws, advice, calls) =
              (if use_llm \<and> is_available backend then
                 (case check_with_llm backend of
                    LlmSuccess llm \<Rightarrow>
                      if nonempty_dict llm then
                        (before_llm
                           @ llm_interaction_findings (existing_pairs before_llm)
                               (case interactions llm of Some xs \<Rightarrow> xs | None \<Rightarrow> [])
                           @ llm_concern_findings
                               (case allergy_concerns llm of Some cs \<Rightarrow> cs | None \<Rightarrow> []),
                         Some (case d_general_advice llm of Some a \<Rightarrow> a | None \<Rightarrow> []),
                         calls1 @ [CallGenerate])
                      else (before_llm, None, calls1 @ [CallGenerate])
                  | LlmFailure err \<Rightarrow> (before_llm, None, calls1 @ [CallGenerate]))
               else (before_llm, None, calls1));
            sev = max_severity ''none'' ws
        in (\<lparr>safe = (sev \<in> set [''none'', ''low'']), warnings = ws, overall_severity = sev,
             medications_checked = medications,
             patient_allergies = Some (case allergies of Some al \<Rightarrow> al | None \<Rightarrow> []),
             general_advice = advice\<rparr>, calls))"

section \<open>Semantic retrieval (rag\_service.py)\<close>

datatype py_error = ValueError | IndexError

text \<open>
  Floats are modelled as real numbers, so rounding is left out. \<open>linalg_norm\<close> is
  \<open>np.linalg.norm\<close> on a one-dimensional array and \<open>np_dot\<close> is \<open>np.dot\<close> on two
  of them, which raises \<open>ValueError\<close> when their lengths differ.
\<close>

definition linalg_norm :: "real list \<Rightarrow> real" where
  "linalg_norm a = sqrt (sum_list (map (\<lambda>x. x * x) a))"

definition np_dot :: "real list \<Rightarrow> real list \<Rightarrow> py_error + real" where
  "np_dot a b =
     (if length a \<noteq> length b then Inl ValueError
      else Inr (sum_list (map (\<lambda>(x, y). x * y) (zip a b))))"

definition cosine_similarity :: "real list \<Rightarrow> real list \<Rightarrow> py_error + real" where
  "cosine_similarity a b =
     (if a = [] \<or> b = [] then Inr 0
      else
        let norm_a = linalg_norm a; norm_b = linalg_norm b
        in if norm_a = 0 \<or> norm_b = 0 then Inr 0
           else (case np_dot a b of
                   Inl e \<Rightarrow> Inl e
                 | Inr d \<Rightarrow> Inr (d / (norm_a * norm_b))))"

text \<open>
  The \<open>embedding\<close> entry of a record dictionary: missing or \<open>None\<close>, a list of
  floats, or a string together with what \<open>json.loads\<close> makes of it (\<open>None\<close> for
  \<open>JSONDecodeError\<close>, otherwise the decoded list of floats).
\<close>

datatype embedding_field =
  NoEmbedding | EmbeddingList "real list" | EmbeddingStr string "real list option"

record medical_record =
  record_id :: nat
  record_type :: "string option"
  title :: "string option"
  content :: "string option"
  record_date :: "string option"
  embedding :: embedding_field

text \<open>A search result is the record's dictionary with the key \<open>similarity\<close> added.\<close>

record search_result =
  result_record :: medical_record
  similarity :: real

definition record_vector :: "medical_record \<Rightarrow> real list option" where
  "record_vector r =
     (case embedding r of
        NoEmbedding \<Rightarrow> None
      | EmbeddingList v \<Rightarrow> (if v = [] then None else Some v)
      | EmbeddingStr s decoded \<Rightarrow> (if s = [] then None else decoded))"

fun score_records ::
  "real list \<Rightarrow> real \<Rightarrow> medical_record list \<Rightarrow> py_error + search_result list" where
  "score_records query_embedding min_similarity [] = Inr []"
| "score_records query_embedding min_similarity (r # rs) =
     (case record_vector r of
        None \<Rightarrow> score_records query_embedding min_similarity rs
      | Some record_embedding \<Rightarrow>
          (case cosine_similarity query_embedding record_embedding of
             Inl e \<Rightarrow> Inl e
           | Inr sim \<Rightarrow>
               (case score_records query_embedding min_similarity rs of
                  Inl e \<Rightarrow> Inl e
                | Inr results \<Rightarrow>
                    Inr (if sim \<ge> min_similarity
                         then \<lparr>result_record = r, similarity = sim\<rparr> # results
                         else results))))"

definition sort_by_similarity :: "search_result list \<Rightarrow> search_result list" where
  "sort_by_similarity results = sort_key (\<lambda>x. - similarity x) results"

definition slice_to :: "int \<Rightarrow> 'a list \<Rightarrow> 'a list" where
  "slice_to k xs = (if 0 \<le> k then take (nat k) xs else take (length xs - nat (- k)) xs)"

definition or_empty :: "string option \<Rightarrow> string" where
  "or_empty v = (case v of Some s \<Rightarrow> s | None \<Rightarrow> [])"

definition keyword_matches :: "string list \<Rightarrow> medical_record \<Rightarrow> nat" where
  "keyword_matches query_terms r =
     length (filter (\<lambda>term. str_in term (lower (or_empty (title r) @ '' '' @ or_empty (content r))))
               query_terms)"

definition keyword_search :: "string \<Rightarrow> medical_record list \<Rightarrow> int \<Rightarrow> search_result list" where
  "keyword_search query records top_k =
     (let query_terms = split (lower query);
          results = concat (map (\<lambda>r.
            let matches = keyword_matches query_terms r
            in if matches > 0
               then [\<lparr>result_record = r,
                      similarity = real matches / real (length query_terms)\<rparr>]
               else []) records)
      in slice_to top_k (sort_by_similarity results))"

definition embed_text :: "'j ollama \<Rightarrow> string \<Rightarrow> real list option" where
  "embed_text backend text = embed backend text"

definition search_records ::
  "'j ollama \<Rightarrow> string \<Rightarrow> medical_record list \<Rightarrow> int \<Rightarrow> real
     \<Rightarrow> py_error + search_result list" where
  "search_records backend query records top_k min_similarity =
     (case embed_text backend query of
        None \<Rightarrow> Inr (keyword_search query records top_k)
      | Some query_embedding \<Rightarrow>
          if query_embedding = [] then Inr (keyword_search query records top_k)
          else (case score_records query_embedding min_similarity records of
                  Inl e \<Rightarrow> Inl e
                | Inr results \<Rightarrow> Inr (slice_to top_k (sort_by_similarity results))))"

definition clean_record :: "search_result \<Rightarrow> search_result" where
  "clean_record r = r\<lparr>result_record := (result_record r)\<lparr>embedding := NoEmbedding\<rparr>\<rparr>"

datatype summary_text =
  NoRecordsFound string string | AiSummary string | SummaryUnavailable nat

record summarize_result =
  s_success :: bool
  s_query :: string
  records_found :: nat
  s_records :: "search_result list"
  summary :: summary_text
  ai_error :: "string option"

definition search_and_summarize ::
  "'j ollama \<Rightarrow> string \<Rightarrow> medical_record list \<Rightarrow> string \<Rightarrow> int
     \<Rightarrow> py_error + summarize_result" where
  "search_and_summarize backend query records patient_name top_k =
     (case search_records backend query records top_k (3 / 10) of
        Inl e \<Rightarrow> Inl e
      | Inr relevant_records \<Rightarrow>
          if relevant_records = [] then
            Inr \<lparr>s_success = True, s_query = query, records_found = 0, s_records = [],
                 summary = NoRecordsFound query patient_name, ai_error = None\<rparr>
          else
            (case generate backend of
               GenOk response extracted \<Rightarrow>
                 Inr \<lparr>s_success = True, s_query = query,
                      records_found = length relevant_records,
                      s_records = map clean_record relevant_records,
                      summary = AiSummary response, ai_error = None\<rparr>
             | GenFailed err \<Rightarrow>
                 Inr \<lparr>s_success = True, s_query = query,
                      records_found = length relevant_records,
                      s_records = map clean_record relevant_records,
                      summary = SummaryUnavailable (length relevant_records),
                      ai_error = Some err\<rparr>))"

record answer_result =
  a_success :: bool
  question :: string
  answer :: "string option"
  confidence :: "string option"
  a_error :: "string option"
  supporting_records :: "search_result list"

text \<open>
  The answer of \<open>answer_question\<close> when nothing was found is the fixed sentence built
  from the patient's name; it is modelled as \<open>None\<close>.
\<close>

definition answer_question ::
  "'j ollama \<Rightarrow> string \<Rightarrow> medical_record list \<Rightarrow> string \<Rightarrow> py_error + answer_result" where
  "answer_question backend quest records patient_name =
     (case search_records backend quest records 5 (3 / 10) of
        Inl e \<Rightarrow> Inl e
      | Inr relevant_records \<Rightarrow>
          if relevant_records = [] then
            Inr \<lparr>a_success = True, question = quest, answer = None, confidence = Some ''low'',
                 a_error = None, supporting_records = []\<rparr>
          else
            (case generate backend of
               GenOk response extracted \<Rightarrow>
                 Inr \<lparr>a_success = True, question = quest, answer = Some response,
                      confidence = Some (if length relevant_records \<ge> 2 then ''high''
                                         else ''medium''),
                      a_error = None,
                      supporting_records = map clean_record (slice_to 3 relevant_records)\<rparr>
             | GenFailed err \<Rightarrow>
                 Inr \<lparr>a_success = False, question = quest,
                      answer = Some ''Unable to process question at this time.'',
                      confidence = None, a_error = Some err,
                      supporting_records = map clean_record (slice_to 3 relevant_records)\<rparr>))"

section \<open>Prescription suggestions (prescription\_ai.py)\<close>

record guideline =
  first_line :: "string list"
  typical_dosage :: "(string \<times> string) list"

definition TREATMENT_GUIDELINES :: "(string \<times> guideline) list" where
  "TREATMENT_GUIDELINES =
    [(''hypertension'',
        \<lparr>first_line = [''lisinopril'', ''amlodipine'', ''hydrochlorothiazide''],
         typical_dosage = [(''lisinopril'', ''10-40mg once daily''),
                           (''amlodipine'', ''5-10mg once daily''),
                           (''hydrochlorothiazide'', ''12.5-25mg once daily'')]\<rparr>),
     (''type 2 diabetes'',
        \<lparr>first_line = [''metformin''],
         typical_dosage = [(''metformin'', ''500-1000mg twice daily with meals'')]\<rparr>),
     (''hyperlipidemia'',
        \<lparr>first_line = [''atorvastatin'', ''rosuvastatin''],
         typical_dosage = [(''atorvastatin'', ''10-80mg once daily''),
                           (''rosuvastatin'', ''5-40mg once daily'')]\<rparr>),
     (''depression'',
        \<lparr>first_line = [''sertraline'', ''escitalopram''],
         typical_dosage = [(''sertraline'', ''50-200mg once daily''),
                           (''escitalopram'', ''10-20mg once daily'')]\<rparr>),
     (''anxiety'',
        \<lparr>first_line = [''sertraline'', ''escitalopram'', ''buspirone''],
         typical_dosage = [(''sertraline'', ''50-200mg once daily''),
                           (''buspirone'', ''5-10mg twice daily'')]\<rparr>),
     (''pain'',
        \<lparr>first_line = [''acetaminophen'', ''ibuprofen''],
         typical_dosage = [(''acetaminophen'', ''500-1000mg every 6 hours as needed''),
                           (''ibuprofen'', ''400-800mg every 6-8 hours as needed'')]\<rparr>),
     (''infection'',
        \<lparr>first_line = [''amoxicillin'', ''azithromycin''],
         typical_dosage = [(''amoxicillin'', ''500mg three times daily for 7-10 days''),
                           (''azithromycin'', ''500mg day 1, then 250mg days 2-5'')]\<rparr>),
     (''acid reflux'',
        \<lparr>first_line = [''omeprazole'', ''pantoprazole''],
         typical_dosage = [(''omeprazole'', ''20-40mg once daily before breakfast''),
                           (''pantoprazole'', ''40mg once daily'')]\<rparr>),
     (''asthma'',
        \<lparr>first_line = [''albuterol'', ''fluticasone''],
         typical_dosage = [(''albuterol'', ''2 puffs every 4-6 hours as needed''),
                           (''fluticasone'', ''1-2 puffs twice daily'')]\<rparr>),
     (''allergies'',
        \<lparr>first_line = [''cetirizine'', ''loratadine'', ''fexofenadine''],
         typical_dosage = [(''cetirizine'', ''10mg once daily''),
                           (''loratadine'', ''10mg once daily''),
                           (''fexofenadine'', ''180mg once daily'')]\<rparr>)]"

record guideline_suggestion =
  g_medication :: string
  g_dosage :: string
  g_alternatives :: "string list"

fun find_guideline ::
  "(string \<times> guideline) list \<Rightarrow> string \<Rightarrow> py_error + guideline_suggestion option" where
  "find_guideline [] diagnosis_lower = Inr None"
| "find_guideline ((condition, guidelines) # rest) diagnosis_lower =
     (if str_in condition diagnosis_lower \<or> str_in diagnosis_lower condition then
        (case first_line guidelines of
           [] \<Rightarrow> Inl IndexError
         | first_med # others \<Rightarrow>
             Inr (Some \<lparr>g_medication = first_med,
                        g_dosage = (case map_of (typical_dosage guidelines) first_med of
                                      Some d \<Rightarrow> d | None \<Rightarrow> ''As directed''),
                        g_alternatives = others\<rparr>))
      else find_guideline rest diagnosis_lower)"

definition get_guideline_suggestion :: "string \<Rightarrow> py_error + guideline_suggestion option" where
  "get_guideline_suggestion diagnosis = find_guideline TREATMENT_GUIDELINES (lower diagnosis)"

text \<open>
  A suggestion dictionary. The one decoded from the LLM reply may lack any key; the
  ones built from a guideline have them all.
\<close>

record suggestion =
  medication :: "string option"
  dosage :: "string option"
  frequency :: "string option"
  duration :: "string option"
  instructions :: "string option"
  precautions :: "string list option"
  alternatives :: "string list option"
  reasoning :: "string option"

datatype suggestion_source = guidelines | ai

record prescription_result =
  success :: bool
  suggested :: "suggestion option"
  suggestion_source :: "suggestion_source option"
  ai_available :: "bool option"
  guideline_match :: "bool option"
  parse_error :: "bool option"
  error :: "string option"

definition backfill :: "suggestion \<Rightarrow> suggestion" where
  "backfill s =
     s\<lparr>medication := Some (case medication s of Some m \<Rightarrow> m | None \<Rightarrow> ''Consult physician''),
       dosage := Some (case dosage s of Some d \<Rightarrow> d | None \<Rightarrow> ''Consult physician'')\<rparr>"

text \<open>
  The age, allergies, current medications and other conditions of the patient enter
  the prompt only, hence the reply of the backend and nothing else.
\<close>

definition suggest_prescription ::
  "suggestion ollama \<Rightarrow> string \<Rightarrow> int option \<Rightarrow> string list option \<Rightarrow> string list option
     \<Rightarrow> string list option \<Rightarrow> py_error + prescription_result" where
  "suggest_prescription backend diagnosis patient_age allergies current_medications
       patient_conditions =
     (case get_guideline_suggestion diagnosis of
        Inl e \<Rightarrow> Inl e
      | Inr guideline_suggestion \<Rightarrow>
          (case generate backend of
             GenFailed err \<Rightarrow>
               (case guideline_suggestion of
                  Some g \<Rightarrow>
                    Inr \<lparr>success = True,
                         suggested = Some
                           \<lparr>medication = Some (g_medication g), dosage = Some (g_dosage g),
                            frequency = Some ''As directed by physician'',
                            duration = Some ''As prescribed'',
                            instructions =
                              Some ''Take as directed. Contact doctor if symptoms persist.'',
                            precautions = Some [''Review for drug interactions'',
                                                ''Monitor for side effects''],
                            alternatives = Some (g_alternatives g),
                            reasoning = Some ''Based on standard treatment guidelines''\<rparr>,
                         suggestion_source = Some guidelines, ai_available = Some False,
                         guideline_match = None, parse_error = None, error = None\<rparr>
                | None \<Rightarrow>
                    Inr \<lparr>success = False, suggested = None, suggestion_source = None,
                         ai_available = None, guideline_match = None, parse_error = None,
                         error = Some err\<rparr>)
           | GenOk response_text (JsonValue parsed) \<Rightarrow>
               Inr \<lparr>success = True, suggested = Some (backfill parsed),
                    suggestion_source = Some ai, ai_available = Some True,
                    guideline_match = Some (guideline_suggestion \<noteq> None),
                    parse_error = None, error = None\<rparr>
           | GenOk response_text unparsed \<Rightarrow>
               (case guideline_suggestion of
                  Some g \<Rightarrow>
                    Inr \<lparr>success = True,
                         suggested = Some
                           \<lparr>medication = Some (g_medication g), dosage = Some (g_dosage g),
                            frequency = Some ''As directed'',
                            duration = Some ''As prescribed'',
                            instructions = Some ''Take as directed by your physician.'',
                            precautions = Some [],
                            alternatives = Some (g_alternatives g),
                            reasoning = Some ''Based on treatment guidelines''\<rparr>,
                         suggestion_source = Some guidelines, ai_available = Some True,
                         guideline_match = None, parse_error = Some True, error = None\<rparr>
                | None \<Rightarrow>
                    Inr \<lparr>success = False, suggested = None, suggestion_source = None,
                         ai_available = None, guideline_match = None, parse_error = None,
                         error = Some ''Failed to parse AI response''\<rparr>)))"

section \<open>Notions used to state the properties\<close>

text \<open>The largest rank among the severities of a list of findings, \<open>0\<close> for none.\<close>

definition max_rank :: "finding list \<Rightarrow> nat" where
  "max_rank ws = Max (insert 0 ((\<lambda>w. severity_rank (finding_severity w)) ` set ws))"

text \<open>\<open>x\<close> occurs in \<open>y\<close> as a contiguous substring, letter case ignored.\<close>

definition ci_substring :: "string \<Rightarrow> string \<Rightarrow> bool" where
  "ci_substring x y = (\<exists>p s. lower y = p @ lower x @ s)"



text \<open>
  A diagnosis matches a condition of the guideline table when one of the two occurs in
  the other as a substring, letter case ignored.
\<close>

definition guideline_matches :: "string \<Rightarrow> string \<times> guideline \<Rightarrow> bool" where
  "guideline_matches diagnosis entry =
     (ci_substring (fst entry) diagnosis \<or> ci_substring diagnosis (fst entry))"

text \<open>
  The search takes the embedding path when the backend returns a non-empty embedding for
  the query, and the keyword path otherwise.
\<close>

definition embedding_path :: "'j ollama \<Rightarrow> string \<Rightarrow> bool" where
  "embedding_path backend query =
     (case embed_text backend query of Some v \<Rightarrow> v \<noteq> [] | None \<Rightarrow> False)"

text \<open>Similarities in descending order.\<close>

definition descending :: "real list \<Rightarrow> bool" where
  "descending xs = sorted_wrt (\<lambda>a b. a \<ge> b) xs"

section \<open>Sample inputs\<close>

definition backend_down :: "'j ollama" where
  "backend_down =
     \<lparr>is_available = False, generate = GenFailed ''Connection error'', embed = (\<lambda>t. None)\<rparr>"

definition backend_twice :: "llm_data ollama" where
  "backend_twice =
     \<lparr>is_available = True,
      generate = GenOk ''{}'' (JsonValue
        \<lparr>interactions = Some
           [\<lparr>i_drugs = Some [''aspirin'', ''alcohol''], i_severity = Some ''moderate'',
              i_warning = Some ''Stomach bleeding.''\<rparr>,
            \<lparr>i_drugs = Some [''alcohol'', ''aspirin''], i_severity = Some ''moderate'',
              i_warning = Some ''Stomach bleeding.''\<rparr>],
         allergy_concerns = None, d_general_advice = None, other_keys = False\<rparr>),
      embed = (\<lambda>t. None)\<rparr>"



definition backend_embeds :: "real list \<Rightarrow> unit ollama" where
  "backend_embeds v =
     \<lparr>is_available = True, generate = GenFailed ''Request timed out'', embed = (\<lambda>t. Some v)\<rparr>"

definition sample_record :: "nat \<Rightarrow> string \<Rightarrow> string \<Rightarrow> embedding_field \<Rightarrow> medical_record" where
  "sample_record n t c e =
     \<lparr>record_id = n, record_type = Some ''note'', title = Some t, content = Some c,
      record_date = Some ''2024-03-01'', embedding = e\<rparr>"

definition record_xray :: medical_record where
  "record_xray = sample_record 1 ''Chest X-ray'' ''No acute findings.'' NoEmbedding"

definition record_angina :: medical_record where
  "record_angina =
     sample_record 2 ''Angina'' ''Reports chest pain on exertion.'' (EmbeddingList [1, 0])"

definition record_ecg :: medical_record where
  "record_ecg = sample_record 3 ''ECG'' ''Normal sinus rhythm.'' (EmbeddingList [2, 0])"

definition record_opposite :: medical_record where
  "record_opposite =
     sample_record 4 ''Dermatology'' ''Eczema follow-up.'' (EmbeddingList [- 1, 0])"

definition record_corrupt :: medical_record where
  "record_corrupt = sample_record 5 ''Lab'' ''Lipid panel.'' (EmbeddingStr ''[0.1, '' None)"

definition record_empty :: medical_record where
  "record_empty = sample_record 6 ''Note'' ''Phone call.'' (EmbeddingList [])"

section \<open>Verified properties\<close>

subsection \<open>Severity of a verdict\<close>

lemma max_rank_Nil: "max_rank [] = 0"
  by (simp add: max_rank_def)

lemma max_rank_Cons:
  "max_rank (w # ws) = max (severity_rank (finding_severity w)) (max_rank ws)"
proof -
  let ?S = "(\<lambda>w. severity_rank (finding_severity w)) ` set ws"
  have "max_rank (w # ws) = Max (insert (severity_rank (finding_severity w)) (insert 0 ?S))"
    by (simp add: max_rank_def insert_commute)
  also have "\<dots> = max (severity_rank (finding_severity w)) (Max (insert 0 ?S))"
    by (rule Max_insert) auto
  finally show ?thesis by (simp add: max_rank_def)
qed

lemma max_rank_append: "max_rank (xs @ ys) = max (max_rank xs) (max_rank ys)"
  by (induction xs) (simp_all add: max_rank_Nil max_rank_Cons max.assoc)

lemma max_severity_rank:
  "severity_rank (max_severity cur ws) = max (severity_rank cur) (max_rank ws)"
proof (induction ws arbitrary: cur)
  case Nil
  then show ?case by (simp add: max_rank_Nil)
next
  case (Cons w ws)
  show ?case by (simp add: Cons.IH max_rank_Cons max_def)
qed

lemma rank_pos_known: "0 < severity_rank s \<Longrightarrow> s \<in> set (map fst severities)"
  by (auto simp: severity_rank_def severities_def split: option.splits if_splits)

lemma max_severity_known:
  "cur \<in> set (map fst severities) \<Longrightarrow> max_severity cur ws \<in> set (map fst severities)"
proof (induction ws arbitrary: cur)
  case Nil
  then show ?case by simp
next
  case (Cons w ws)
  have "(if severity_rank cur < severity_rank (finding_severity w)
         then finding_severity w else cur) \<in> set (map fst severities)"
    using Cons.prems rank_pos_known [of "finding_severity w"] by auto
  then show ?case using Cons.IH by simp
qed

lemma rank_none: "severity_rank ''none'' = 0"
  by (simp add: severity_rank_def severities_def)

lemma none_known: "''none'' \<in> set (map fst severities)"
  by (simp add: severities_def)

lemma check_interactions_resolve:
  "medications \<noteq> [] \<Longrightarrow>
   overall_severity (fst (check_interactions backend medications allergies use_llm)) =
     max_severity ''none''
       (warnings (fst (check_interactions backend medications allergies use_llm)))
   \<and> safe (fst (check_interactions backend medications allergies use_llm)) =
     (overall_severity (fst (check_interactions backend medications allergies use_llm))
        \<in> set [''none'', ''low''])"
  by (simp add: check_interactions_def Let_def split: llm_result.splits prod.splits)

text \<open>
  C1. For a non-empty list of medications the verdict's severity is one of the five
  severity names and its rank is the largest rank among the findings of the returned
  \<open>warnings\<close> list (\<open>0\<close>, the rank of \<open>none\<close>, when there is no finding; a severity
  string outside the five names ranks \<open>0\<close>, as in the code's dictionary lookup);
  \<open>safe\<close> holds exactly when that severity is \<open>none\<close> or \<open>low\<close>. The severity is
  computed by \<open>max_severity\<close> from the findings, and inserting a finding anywhere into
  a list of findings never lowers the rank of what \<open>max_severity\<close> returns.
\<close>

theorem severity_is_maximum:
  assumes "medications \<noteq> []"
  shows "(let r = fst (check_interactions backend medications allergies use_llm) in
           overall_severity r \<in> set [''none'', ''low'', ''moderate'', ''high'', ''critical'']
         \<and> severity_rank (overall_severity r) = max_rank (warnings r)
         \<and> (safe r \<longleftrightarrow> overall_severity r = ''none'' \<or> overall_severity r = ''low'')
         \<and> overall_severity r = max_severity ''none'' (warnings r))
       \<and> severity_rank (max_severity ''none'' (ws1 @ ws2))
            \<le> severity_rank (max_severity ''none'' (ws1 @ w # ws2))"
proof -
  let ?r = "fst (check_interactions backend medications allergies use_llm)"
  have res: "overall_severity ?r = max_severity ''none'' (warnings ?r)"
    and sf: "safe ?r = (overall_severity ?r \<in> set [''none'', ''low''])"
    using check_interactions_resolve [OF assms] by blast+
  have "overall_severity ?r \<in> set (map fst severities)"
    unfolding res by (rule max_severity_known [OF none_known])
  then have known:
    "overall_severity ?r \<in> set [''none'', ''low'', ''moderate'', ''high'', ''critical'']"
    by (simp add: severities_def)
  have rk: "severity_rank (overall_severity ?r) = max_rank (warnings ?r)"
    unfolding res by (simp add: max_severity_rank rank_none)
  have mono: "severity_rank (max_severity ''none'' (ws1 @ ws2))
            \<le> severity_rank (max_severity ''none'' (ws1 @ w # ws2))"
    by (simp add: max_severity_rank rank_none max_rank_append max_rank_Cons)
  from known rk sf res mono show ?thesis by (simp add: Let_def)
qed

theorem severity_is_maximum_witness:
  "[''warfarin'', ''aspirin''] \<noteq> ([] :: string list)
   \<and> overall_severity
        (fst (check_interactions backend_down [''warfarin'', ''aspirin''] None False)) = ''high''
   \<and> max_rank
        (warnings (fst (check_interactions backend_down [''warfarin'', ''aspirin''] None False)))
       = severity_rank ''high''
   \<and> safe (fst (check_interactions backend_down [''warfarin'', ''aspirin''] None False)) = False"
proof -
  have ne: "[''warfarin'', ''aspirin''] \<noteq> ([] :: string list)" by simp
  have high: "overall_severity
        (fst (check_interactions backend_down [''warfarin'', ''aspirin''] None False)) = ''high''"
    by code_simp
  note sev = severity_is_maximum [OF ne, of backend_down None False, unfolded Let_def high]
  from sev have rk: "severity_rank ''high'' = max_rank
        (warnings (fst (check_interactions backend_down [''warfarin'', ''aspirin''] None False)))"
    by blast
  from sev have "safe (fst (check_interactions backend_down [''warfarin'', ''aspirin''] None False))
      \<longleftrightarrow> ''high'' = ''none'' \<or> ''high'' = ''low''"
    by blast
  then have sf: "safe (fst (check_interactions backend_down [''warfarin'', ''aspirin''] None False))
      = False"
    by simp
  from ne high rk [symmetric] sf show ?thesis by blast
qed

subsection \<open>No medication\<close>

text \<open>
  C3. With an empty list of medications the checker returns the fixed verdict
  \<open>safe = True\<close>, no findings, severity \<open>none\<close>, whatever the allergies, the
  \<open>use_llm\<close> flag and the backend are, and makes no call to the backend: the result
  holds no finding of the rule table or of the allergy check.
\<close>

theorem no_medication_short_circuit:
  "check_interactions backend [] allergies use_llm =
     (\<lparr>safe = True, warnings = [], overall_severity = ''none'', medications_checked = [],
       patient_allergies = None, general_advice = None\<rparr>, [])"
  by (simp add: check_interactions_def)

theorem no_medication_short_circuit_witness:
  "safe (fst (check_interactions
        \<lparr>is_available = True,
          generate = GenOk ''{}'' (JsonValue
            \<lparr>interactions = None, allergy_concerns = Some [''penicillin allergy''],
              d_general_advice = None, other_keys = False\<rparr>),
          embed = (\<lambda>t. None)\<rparr> [] (Some [''penicillin'']) True)) = True
   \<and> warnings (fst (check_interactions
        \<lparr>is_available = True,
          generate = GenOk ''{}'' (JsonValue
            \<lparr>interactions = None, allergy_concerns = Some [''penicillin allergy''],
              d_general_advice = None, other_keys = False\<rparr>),
          embed = (\<lambda>t. None)\<rparr> [] (Some [''penicillin'']) True)) = []
   \<and> snd (check_interactions
        \<lparr>is_available = True,
          generate = GenOk ''{}'' (JsonValue
            \<lparr>interactions = None, allergy_concerns = Some [''penicillin allergy''],
              d_general_advice = None, other_keys = False\<rparr>),
          embed = (\<lambda>t. None)\<rparr> [] (Some [''penicillin'']) True) = []"
  by (simp add: no_medication_short_circuit)

subsection \<open>The findings of a call\<close>

lemma starts_with_iff: "starts_with xs ys \<longleftrightarrow> (\<exists>s. ys = xs @ s)"
  by (induction xs ys rule: starts_with.induct) auto

lemma str_in_iff: "str_in xs ys \<longleftrightarrow> (\<exists>p s. ys = p @ xs @ s)"
proof (induction ys)
  case Nil
  then show ?case by simp
next
  case (Cons y ys)
  have "(\<exists>p s. y # ys = p @ xs @ s) \<longleftrightarrow> (\<exists>s. y # ys = xs @ s) \<or> (\<exists>p s. ys = p @ xs @ s)"
  proof
    assume "\<exists>p s. y # ys = p @ xs @ s"
    then obtain p s where ps: "y # ys = p @ xs @ s" by blast
    show "(\<exists>s. y # ys = xs @ s) \<or> (\<exists>p s. ys = p @ xs @ s)"
    proof (cases p)
      case Nil
      with ps show ?thesis by auto
    next
      case (Cons a p')
      with ps have "ys = p' @ xs @ s" by simp
      then show ?thesis by blast
    qed
  next
    assume "(\<exists>s. y # ys = xs @ s) \<or> (\<exists>p s. ys = p @ xs @ s)"
    then show "\<exists>p s. y # ys = p @ xs @ s"
    proof
      assume "\<exists>s. y # ys = xs @ s"
      then obtain s where "y # ys = [] @ xs @ s" by auto
      then show ?thesis by blast
    next
      assume "\<exists>p s. ys = p @ xs @ s"
      then obtain p s where "ys = p @ xs @ s" by blast
      then have "y # ys = (y # p) @ xs @ s" by simp
      then show ?thesis by blast
    qed
  qed
  with Cons show ?case by (simp add: starts_with_iff)
qed

lemma ci_substring_str_in: "ci_substring x y = str_in (lower x) (lower y)"
  by (simp add: ci_substring_def str_in_iff)

lemma check_pair_source: "w \<in> set (check_pair d1 d2) \<Longrightarrow> source w = database \<and> drugs w = [d1, d2]"
  by (auto simp: check_pair_def split: option.splits)

lemma check_all_pairs_source: "w \<in> set (check_all_pairs ds) \<Longrightarrow> source w = database \<and> length (drugs w) = 2"
  by (induction ds) (auto dest: check_pair_source)

lemma known_source: "w \<in> set (check_known_interactions ms) \<Longrightarrow> source w = database \<and> length (drugs w) = 2"
  unfolding check_known_interactions_def by (rule check_all_pairs_source)

lemma allergy_source:
  "w \<in> set (allergy_findings al ms) \<Longrightarrow>
     source w = allergy_check \<and> severity w = Some ''critical'' \<and> length (drugs w) = 1"
  by (auto simp: allergy_findings_def split: if_splits)

lemma llm_interaction_source:
  "w \<in> set (llm_interaction_findings ex xs) \<Longrightarrow> source w = ai_analysis \<and> length (drugs w) = 2"
  by (auto simp: llm_interaction_findings_def Let_def split: if_splits)

lemma llm_concern_source:
  "w \<in> set (llm_concern_findings cs) \<Longrightarrow> source w = ai_analysis \<and> drugs w = []"
  by (auto simp: llm_concern_findings_def split: if_splits)

lemma warnings_without_llm:
  "medications \<noteq> [] \<Longrightarrow> \<not> (use_llm \<and> is_available backend) \<Longrightarrow>
   warnings (fst (check_interactions backend medications allergies use_llm)) =
     findings_before_llm medications allergies"
  by (simp add: check_interactions_def Let_def)


lemma warnings_split:
  assumes "medications \<noteq> []"
  shows "\<exists>added. warnings (fst (check_interactions backend medications allergies use_llm)) =
           findings_before_llm medications allergies @ added
         \<and> (\<forall>w \<in> set added. source w = ai_analysis)"
proof (cases "use_llm \<and> is_available backend")
  case False
  then show ?thesis using warnings_without_llm [OF assms, of use_llm backend allergies] by simp
next
  case True
  show ?thesis
  proof (cases "check_with_llm backend")
    case (LlmFailure e)
    with True assms show ?thesis by (simp add: check_interactions_def Let_def)
  next
    case (LlmSuccess llm)
    show ?thesis
    proof (cases "nonempty_dict llm")
      case False
      with True assms LlmSuccess show ?thesis by (simp add: check_interactions_def Let_def)
    next
      case ne: True
      let ?added = "llm_interaction_findings (existing_pairs (findings_before_llm medications allergies))
         (case interactions llm of Some xs \<Rightarrow> xs | None \<Rightarrow> [])
       @ llm_concern_findings (case allergy_concerns llm of Some cs \<Rightarrow> cs | None \<Rightarrow> [])"
      have "warnings (fst (check_interactions backend medications allergies use_llm)) =
           findings_before_llm medications allergies @ ?added"
        using True assms LlmSuccess ne by (simp add: check_interactions_def Let_def)
      moreover have "\<forall>w \<in> set ?added. source w = ai_analysis"
        using llm_interaction_source llm_concern_source by auto
      ultimately show ?thesis by blast
    qed
  qed
qed

lemma filter_source_known:
  "filter (\<lambda>w. source w = allergy_check) (check_known_interactions ms) = []"
  by (auto simp: filter_empty_conv dest: known_source)

lemma filter_source_allergy:
  "filter (\<lambda>w. source w = allergy_check) (allergy_findings al ms) = allergy_findings al ms"
  by (auto simp: filter_id_conv dest: allergy_source)

lemma allergy_findings_comprehension:
  "allergy_findings al ms =
     [\<lparr>drugs = [med], severity = Some ''critical'',
        warning = Some (''Patient has documented allergy to '' @ allergy @ ''!''),
        source = allergy_check\<rparr>.
      allergy \<leftarrow> al, med \<leftarrow> ms, ci_substring allergy med \<or> ci_substring med allergy]"
  by (simp add: allergy_findings_def ci_substring_str_in)

text \<open>
  C4. For a non-empty list of medications and a list of declared allergies, the findings
  with source \<open>allergy_check\<close> in the returned \<open>warnings\<close> list are exactly one
  finding of severity \<open>critical\<close> for each allergy and each medication such that one
  of the two strings occurs in the other as a substring, letter case ignored, in the
  order of the allergies and, for one allergy, of the medications. In particular the
  call with medications \<open>["penicillin"]\<close>, allergies \<open>["penicillin"]\<close> and
  \<open>use_llm = False\<close> returns such a finding.
\<close>

theorem allergy_cross_check:
  assumes "medications \<noteq> []"
  shows "filter (\<lambda>w. source w = allergy_check)
           (warnings (fst (check_interactions backend medications (Some allergies) use_llm)))
         = [\<lparr>drugs = [med], severity = Some ''critical'',
              warning = Some (''Patient has documented allergy to '' @ allergy @ ''!''),
              source = allergy_check\<rparr>.
            allergy \<leftarrow> allergies, med \<leftarrow> medications,
            ci_substring allergy med \<or> ci_substring med allergy]
       \<and> warnings (fst (check_interactions backend [''penicillin''] (Some [''penicillin''])
                          False))
         = [\<lparr>drugs = [''penicillin''], severity = Some ''critical'',
              warning = Some ''Patient has documented allergy to penicillin!'',
              source = allergy_check\<rparr>]"
proof -
  obtain added where
    w: "warnings (fst (check_interactions backend medications (Some allergies) use_llm)) =
           findings_before_llm medications (Some allergies) @ added"
    and a: "\<forall>w \<in> set added. source w = ai_analysis"
    using warnings_split [OF assms] by blast
  have "filter (\<lambda>w. source w = allergy_check) added = []"
    using a by (auto simp: filter_empty_conv)
  then have "filter (\<lambda>w. source w = allergy_check)
           (warnings (fst (check_interactions backend medications (Some allergies) use_llm)))
      = allergy_findings allergies medications"
    unfolding w
    by (simp add: findings_before_llm_def filter_source_known filter_source_allergy
        allergy_findings_def)
  then have general: "filter (\<lambda>w. source w = allergy_check)
           (warnings (fst (check_interactions backend medications (Some allergies) use_llm)))
         = [\<lparr>drugs = [med], severity = Some ''critical'',
              warning = Some (''Patient has documented allergy to '' @ allergy @ ''!''),
              source = allergy_check\<rparr>.
            allergy \<leftarrow> allergies, med \<leftarrow> medications,
            ci_substring allergy med \<or> ci_substring med allergy]"
    by (simp only: allergy_findings_comprehension)
  have penicillin:
    "warnings (fst (check_interactions backend [''penicillin''] (Some [''penicillin'']) False))
         = [\<lparr>drugs = [''penicillin''], severity = Some ''critical'',
              warning = Some ''Patient has documented allergy to penicillin!'',
              source = allergy_check\<rparr>]"
    by code_simp
  from general penicillin show ?thesis by blast
qed

theorem allergy_cross_check_witness:
  "[''Penicillin V'', ''ibuprofen''] \<noteq> ([] :: string list)
   \<and> [\<lparr>drugs = [med], severity = Some ''critical'',
         warning = Some (''Patient has documented allergy to '' @ allergy @ ''!''),
         source = allergy_check\<rparr>.
       allergy \<leftarrow> [''penicillin'', ''latex''], med \<leftarrow> [''Penicillin V'', ''ibuprofen''],
       ci_substring allergy med \<or> ci_substring med allergy]
     = [\<lparr>drugs = [''Penicillin V''], severity = Some ''critical'',
          warning = Some ''Patient has documented allergy to penicillin!'',
          source = allergy_check\<rparr>]"
proof -
  have ne: "[''Penicillin V'', ''ibuprofen''] \<noteq> ([] :: string list)" by simp
  have run: "filter (\<lambda>w. source w = allergy_check)
      (warnings (fst (check_interactions backend_down [''Penicillin V'', ''ibuprofen'']
                       (Some [''penicillin'', ''latex'']) False)))
     = [\<lparr>drugs = [''Penicillin V''], severity = Some ''critical'',
          warning = Some ''Patient has documented allergy to penicillin!'',
          source = allergy_check\<rparr>]"
    by code_simp
  from allergy_cross_check [OF ne, of backend_down "[''penicillin'', ''latex'']" False]
  have "filter (\<lambda>w. source w = allergy_check)
      (warnings (fst (check_interactions backend_down [''Penicillin V'', ''ibuprofen'']
                       (Some [''penicillin'', ''latex'']) False)))
     = [\<lparr>drugs = [med], severity = Some ''critical'',
         warning = Some (''Patient has documented allergy to '' @ allergy @ ''!''),
         source = allergy_check\<rparr>.
       allergy \<leftarrow> [''penicillin'', ''latex''], med \<leftarrow> [''Penicillin V'', ''ibuprofen''],
       ci_substring allergy med \<or> ci_substring med allergy]"
    by (rule conjunct1)
  with run ne show ?thesis by simp
qed











subsection \<open>Pairs reported more than once\<close>

text \<open>
  C2. The claim does not hold of the code. Fluoxetine and sertraline are both of class
  \<open>ssri\<close>, so the candidate list of the rule-table scan holds \<open>ssri\<close> twice and the
  pair \<open>ssri\<close>, \<open>maoi\<close> is reported by two \<open>database\<close> findings of one call. And
  the pairs already seen are collected once, before the interactions of the LLM reply are
  gone through, so a reply that names one new pair twice yields two \<open>ai_analysis\<close>
  findings for it.
\<close>

theorem duplicate_pairs_reported:
  "map (\<lambda>w. (drugs w, source w)) (warnings (fst
      (check_interactions backend_down [''fluoxetine'', ''sertraline'', ''phenelzine'']
         None False)))
     = [([''ssri'', ''maoi''], database), ([''ssri'', ''maoi''], database)]
   \<and> map (\<lambda>w. (drugs w, source w)) (warnings (fst
      (check_interactions backend_twice [''aspirin'', ''alcohol''] None True)))
     = [([''aspirin'', ''alcohol''], ai_analysis), ([''alcohol'', ''aspirin''], ai_analysis)]"
proof -
  have database_twice: "map (\<lambda>w. (drugs w, source w)) (warnings (fst
      (check_interactions backend_down [''fluoxetine'', ''sertraline'', ''phenelzine'']
         None False)))
     = [([''ssri'', ''maoi''], database), ([''ssri'', ''maoi''], database)]"
    by code_simp
  have ai_twice: "map (\<lambda>w. (drugs w, source w)) (warnings (fst
      (check_interactions backend_twice [''aspirin'', ''alcohol''] None True)))
     = [([''aspirin'', ''alcohol''], ai_analysis), ([''alcohol'', ''aspirin''], ai_analysis)]"
    by code_simp
  from database_twice ai_twice show ?thesis by blast
qed

subsection \<open>Guideline fallback\<close>

lemma find_guideline_find:
  "find_guideline table d =
     (case List.find (\<lambda>entry. str_in (fst entry) d \<or> str_in d (fst entry)) table of
        None \<Rightarrow> Inr None
      | Some entry \<Rightarrow>
          (case first_line (snd entry) of
             [] \<Rightarrow> Inl IndexError
           | first_med # others \<Rightarrow>
               Inr (Some \<lparr>g_medication = first_med,
                          g_dosage = (case map_of (typical_dosage (snd entry)) first_med of
                                        Some d \<Rightarrow> d | None \<Rightarrow> ''As directed''),
                          g_alternatives = others\<rparr>)))"
  by (induction table d rule: find_guideline.induct) (auto split: list.splits)

lemma conditions_lower: "\<forall>entry \<in> set TREATMENT_GUIDELINES. lower (fst entry) = fst entry"
  by code_simp

lemma first_line_nonempty: "\<forall>entry \<in> set TREATMENT_GUIDELINES. first_line (snd entry) \<noteq> []"
  by code_simp

lemma find_cong_set:
  "(\<And>x. x \<in> set xs \<Longrightarrow> P x = Q x) \<Longrightarrow> List.find P xs = List.find Q xs"
  by (induction xs) auto

lemma find_matches:
  "List.find (\<lambda>entry. str_in (fst entry) (lower diagnosis) \<or> str_in (lower diagnosis) (fst entry))
     TREATMENT_GUIDELINES
   = List.find (guideline_matches diagnosis) TREATMENT_GUIDELINES"
  by (rule find_cong_set)
     (use conditions_lower in \<open>auto simp: guideline_matches_def ci_substring_str_in\<close>)

lemma get_guideline_suggestion_cases:
  "get_guideline_suggestion diagnosis =
     (case List.find (guideline_matches diagnosis) TREATMENT_GUIDELINES of
        None \<Rightarrow> Inr None
      | Some entry \<Rightarrow>
          Inr (Some \<lparr>g_medication = hd (first_line (snd entry)),
                     g_dosage = (case map_of (typical_dosage (snd entry))
                                        (hd (first_line (snd entry))) of
                                   Some d \<Rightarrow> d | None \<Rightarrow> ''As directed''),
                     g_alternatives = tl (first_line (snd entry))\<rparr>))"
proof (cases "List.find (guideline_matches diagnosis) TREATMENT_GUIDELINES")
  case None
  then show ?thesis
    by (simp add: get_guideline_suggestion_def find_guideline_find find_matches)
next
  case (Some entry)
  then have "entry \<in> set TREATMENT_GUIDELINES"
    by (auto simp: find_Some_iff in_set_conv_nth)
  with first_line_nonempty have "first_line (snd entry) \<noteq> []" by blast
  then obtain m others where "first_line (snd entry) = m # others"
    by (cases "first_line (snd entry)") auto
  with Some show ?thesis
    by (simp add: get_guideline_suggestion_def find_guideline_find find_matches)
qed

lemma hypertension_entry:
  "map_option (\<lambda>entry. hd (first_line (snd entry)))
     (List.find (\<lambda>entry. str_in (fst entry) (lower ''hypertension'')
                        \<or> str_in (lower ''hypertension'') (fst entry)) TREATMENT_GUIDELINES)
   = Some ''lisinopril''"
  by code_simp

lemma suggest_prescription_failed:
  assumes "generate backend = GenFailed err"
  shows "suggest_prescription backend diagnosis patient_age allergies current_medications
           patient_conditions =
         (case List.find (guideline_matches diagnosis) TREATMENT_GUIDELINES of
            Some entry \<Rightarrow>
              Inr \<lparr>success = True,
                   suggested = Some
                     \<lparr>medication = Some (hd (first_line (snd entry))),
                      dosage = Some (case map_of (typical_dosage (snd entry))
                                            (hd (first_line (snd entry))) of
                                       Some d \<Rightarrow> d | None \<Rightarrow> ''As directed''),
                      frequency = Some ''As directed by physician'',
                      duration = Some ''As prescribed'',
                      instructions =
                        Some ''Take as directed. Contact doctor if symptoms persist.'',
                      precautions = Some [''Review for drug interactions'',
                                          ''Monitor for side effects''],
                      alternatives = Some (tl (first_line (snd entry))),
                      reasoning = Some ''Based on standard treatment guidelines''\<rparr>,
                   suggestion_source = Some guidelines, ai_available = Some False,
                   guideline_match = None, parse_error = None, error = None\<rparr>
          | None \<Rightarrow>
              Inr \<lparr>success = False, suggested = None, suggestion_source = None,
                   ai_available = None, guideline_match = None, parse_error = None,
                   error = Some err\<rparr>)"
  using assms
  by (simp add: suggest_prescription_def get_guideline_suggestion_cases split: option.splits)

text \<open>
  C7. When the call of the backend fails, the result of \<open>suggest_prescription\<close> is
  decided by the guideline table alone, whatever the age, allergies, current medications
  and other conditions are. If some condition of the table matches the diagnosis, the
  result has \<open>success = True\<close>, source \<open>guidelines\<close>, \<open>ai_available = False\<close>
  and suggests the first first-line medication of the first matching condition of the
  table; if none matches, the result has \<open>success = False\<close>, the error of the
  backend and no suggestion. For the diagnosis \<open>hypertension\<close> the medication is
  \<open>lisinopril\<close>.
\<close>

theorem guideline_fallback:
  assumes "generate backend = GenFailed err"
  shows "suggest_prescription backend diagnosis patient_age allergies current_medications
           patient_conditions =
         (case List.find (guideline_matches diagnosis) TREATMENT_GUIDELINES of
            Some entry \<Rightarrow>
              Inr \<lparr>success = True,
                   suggested = Some
                     \<lparr>medication = Some (hd (first_line (snd entry))),
                      dosage = Some (case map_of (typical_dosage (snd entry))
                                            (hd (first_line (snd entry))) of
                                       Some d \<Rightarrow> d | None \<Rightarrow> ''As directed''),
                      frequency = Some ''As directed by physician'',
                      duration = Some ''As prescribed'',
                      instructions =
                        Some ''Take as directed. Contact doctor if symptoms persist.'',
                      precautions = Some [''Review for drug interactions'',
                                          ''Monitor for side effects''],
                      alternatives = Some (tl (first_line (snd entry))),
                      reasoning = Some ''Based on standard treatment guidelines''\<rparr>,
                   suggestion_source = Some guidelines, ai_available = Some False,
                   guideline_match = None, parse_error = None, error = None\<rparr>
          | None \<Rightarrow>
              Inr \<lparr>success = False, suggested = None, suggestion_source = None,
                   ai_available = None, guideline_match = None, parse_error = None,
                   error = Some err\<rparr>)
       \<and> (\<exists>r s. suggest_prescription backend ''hypertension'' patient_age allergies
                    current_medications patient_conditions = Inr r
                \<and> success r \<and> suggestion_source r = Some guidelines
                \<and> ai_available r = Some False \<and> suggested r = Some s
                \<and> medication s = Some ''lisinopril'')"
proof -
  from hypertension_entry obtain entry where
    "List.find (guideline_matches ''hypertension'') TREATMENT_GUIDELINES = Some entry"
    and "hd (first_line (snd entry)) = ''lisinopril''"
    unfolding find_matches by auto
  then have "\<exists>r s. suggest_prescription backend ''hypertension'' patient_age allergies
                    current_medications patient_conditions = Inr r
                \<and> success r \<and> suggestion_source r = Some guidelines
                \<and> ai_available r = Some False \<and> suggested r = Some s
                \<and> medication s = Some ''lisinopril''"
    by (simp add: suggest_prescription_failed [OF assms])
  with suggest_prescription_failed [OF assms] show ?thesis by blast
qed

theorem guideline_fallback_witness:
  "generate (backend_down :: suggestion ollama) = GenFailed ''Connection error''
   \<and> suggest_prescription backend_down ''Gout'' (Some 61) None (Some [''warfarin'']) None
       = Inr \<lparr>success = False, suggested = None, suggestion_source = None,
              ai_available = None, guideline_match = None, parse_error = None,
              error = Some ''Connection error''\<rparr>
   \<and> (\<exists>r s. suggest_prescription backend_down ''hypertension'' (Some 61) None
                (Some [''warfarin'']) None = Inr r
            \<and> success r \<and> suggestion_source r = Some guidelines
            \<and> ai_available r = Some False \<and> suggested r = Some s
            \<and> medication s = Some ''lisinopril'')"
proof -
  have gen: "generate (backend_down :: suggestion ollama) = GenFailed ''Connection error''"
    by (simp add: backend_down_def)
  have "List.find (\<lambda>entry. str_in (fst entry) (lower ''Gout'')
                          \<or> str_in (lower ''Gout'') (fst entry)) TREATMENT_GUIDELINES = None"
    by code_simp
  then have none: "List.find (guideline_matches ''Gout'') TREATMENT_GUIDELINES = None"
    by (simp only: find_matches)
  note fb = guideline_fallback [OF gen, of _ "Some 61" None "Some [''warfarin'']" None]
  from fb [of "''Gout''"] none
  have gout: "suggest_prescription backend_down ''Gout'' (Some 61) None (Some [''warfarin''])
        None
       = Inr \<lparr>success = False, suggested = None, suggestion_source = None,
              ai_available = None, guideline_match = None, parse_error = None,
              error = Some ''Connection error''\<rparr>"
    by simp
  from fb [of "''Gout''"]
  have "\<exists>r s. suggest_prescription backend_down ''hypertension'' (Some 61) None
                (Some [''warfarin'']) None = Inr r
            \<and> success r \<and> suggestion_source r = Some guidelines
            \<and> ai_available r = Some False \<and> suggested r = Some s
            \<and> medication s = Some ''lisinopril''"
    by (rule conjunct2)
  with gen gout show ?thesis by blast
qed

subsection \<open>Cosine similarity\<close>










subsection \<open>Searching records\<close>

lemma descending_sort_by_similarity: "descending (map similarity (sort_by_similarity rs))"
proof -
  have "sorted (map (\<lambda>x. - similarity x) (sort_by_similarity rs))"
    unfolding sort_by_similarity_def by (rule sorted_sort_key)
  then show ?thesis
    by (simp add: descending_def sorted_wrt_map)
qed

lemma set_sort_by_similarity: "set (sort_by_similarity rs) = set rs"
  by (simp add: sort_by_similarity_def)

lemma length_sort_by_similarity: "length (sort_by_similarity rs) = length rs"
  by (simp add: sort_by_similarity_def)

lemma slice_to_take: "\<exists>n. slice_to k xs = take n xs"
  by (auto simp: slice_to_def)

lemma set_slice_to: "set (slice_to k xs) \<subseteq> set xs"
  using slice_to_take [of k xs] by (auto dest: in_set_takeD)

lemma length_slice_to: "0 \<le> k \<Longrightarrow> int (length (slice_to k xs)) \<le> k"
  by (simp add: slice_to_def)

lemma descending_slice_to:
  "descending (map similarity rs) \<Longrightarrow> descending (map similarity (slice_to k rs))"
proof -
  assume d: "descending (map similarity rs)"
  obtain n where "slice_to k rs = take n rs" using slice_to_take by blast
  then have "map similarity (slice_to k rs) = take n (map similarity rs)"
    by (simp add: take_map)
  with d show ?thesis by (simp add: descending_def sorted_wrt_take)
qed

lemma ranked:
  "descending (map similarity (slice_to k (sort_by_similarity rs)))
   \<and> set (slice_to k (sort_by_similarity rs)) \<subseteq> set rs
   \<and> (0 \<le> k \<longrightarrow> int (length (slice_to k (sort_by_similarity rs))) \<le> k)"
  using descending_slice_to [OF descending_sort_by_similarity, of k rs]
    set_slice_to [of k "sort_by_similarity rs"] length_slice_to [of k "sort_by_similarity rs"]
  by (simp add: set_sort_by_similarity)

lemma score_records_results:
  "score_records q m records = Inr results \<Longrightarrow> x \<in> set results \<Longrightarrow>
     result_record x \<in> set records
     \<and> (\<exists>v. record_vector (result_record x) = Some v
            \<and> cosine_similarity q v = Inr (similarity x))
     \<and> m \<le> similarity x"
proof (induction records arbitrary: results)
  case Nil
  then show ?case by simp
next
  case (Cons r rs)
  show ?case
  proof (cases "record_vector r")
    case None
    with Cons show ?thesis by auto
  next
    case (Some v)
    with Cons.prems(1) obtain sim rest where
      c: "cosine_similarity q v = Inr sim" and
      s: "score_records q m rs = Inr rest" and
      res: "results = (if sim \<ge> m then \<lparr>result_record = r, similarity = sim\<rparr> # rest else rest)"
      by (auto split: sum.splits)
    show ?thesis
    proof (cases "x \<in> set rest")
      case True
      with Cons.IH [OF s] show ?thesis by auto
    next
      case False
      with Cons.prems(2) res have "x = \<lparr>result_record = r, similarity = sim\<rparr>" and "m \<le> sim"
        by (auto split: if_splits)
      with Some c show ?thesis by simp
    qed
  qed
qed

lemma score_records_filter:
  "score_records q m (filter (\<lambda>r. record_vector r \<noteq> None) records) = score_records q m records"
  by (induction records) (auto split: sum.splits option.splits)





lemma search_records_embedding:
  "embedding_path backend query \<Longrightarrow>
   \<exists>q. embed_text backend query = Some q \<and> q \<noteq> [] \<and>
     search_records backend query records top_k m =
       (case score_records q m records of
          Inl e \<Rightarrow> Inl e
        | Inr results \<Rightarrow> Inr (slice_to top_k (sort_by_similarity results)))"
  by (auto simp: search_records_def embedding_path_def split: option.splits)


lemma record_vector_None_iff:
  "record_vector r = None \<longleftrightarrow>
     embedding r = NoEmbedding \<or> embedding r = EmbeddingList []
     \<or> (\<exists>d. embedding r = EmbeddingStr [] d) \<or> (\<exists>s. embedding r = EmbeddingStr s None)"
  by (auto simp: record_vector_def split: embedding_field.splits if_splits)

lemma search_records_filter:
  "search_records backend query (filter (\<lambda>r. record_vector r \<noteq> None) records) top_k m
     = search_records backend query records top_k m"
  if "embedding_path backend query"
  using that unfolding search_records_def embedding_path_def score_records_filter
  by (auto split: option.splits)

lemma search_records_usable:
  assumes "embedding_path backend query"
    and "search_records backend query records top_k m = Inr results"
    and "x \<in> set results"
  shows "result_record x \<in> set records \<and> record_vector (result_record x) \<noteq> None"
proof -
  from assms(1) obtain q where
    s: "search_records backend query records top_k m =
       (case score_records q m records of
          Inl e \<Rightarrow> Inl e
        | Inr results \<Rightarrow> Inr (slice_to top_k (sort_by_similarity results)))"
    using search_records_embedding by blast
  with assms(2) obtain all_results where a: "score_records q m records = Inr all_results"
    and r: "results = slice_to top_k (sort_by_similarity all_results)"
    by (auto split: sum.splits)
  from assms(3) r ranked [of top_k all_results] have "x \<in> set all_results" by blast
  from score_records_results [OF a this] show ?thesis by auto
qed

lemma in_set_slice_toD: "x \<in> set (slice_to k xs) \<Longrightarrow> x \<in> set xs"
  using set_slice_to [of k xs] by blast

lemma summarize_records:
  assumes "search_and_summarize backend query records patient_name top_k = Inr out"
    and "x \<in> set (s_records out)"
  shows "\<exists>results y. search_records backend query records top_k (3 / 10) = Inr results
           \<and> y \<in> set results \<and> x = clean_record y"
  using assms
  by (auto simp: search_and_summarize_def split: sum.splits if_splits generate_result.splits)

lemma answer_records:
  assumes "answer_question backend quest records patient_name = Inr out"
    and "x \<in> set (supporting_records out)"
  shows "\<exists>results y. search_records backend quest records 5 (3 / 10) = Inr results
           \<and> y \<in> set results \<and> x = clean_record y"
  using assms
  by (auto simp: answer_question_def split: sum.splits if_splits generate_result.splits)
     (blast dest: in_set_slice_toD)+

subsection \<open>Sample searches\<close>






lemma cos_same: "cosine_similarity [1, 0] [1, 0] = Inr 1"
  by (simp add: cosine_similarity_def np_dot_def linalg_norm_def)



lemma sample_vectors:
  "record_vector record_xray = None" "record_vector record_angina = Some [1, 0]"
  "record_vector record_ecg = Some [2, 0]" "record_vector record_opposite = Some [- 1, 0]"
  "record_vector record_corrupt = None" "record_vector record_empty = None"
  by (simp_all add: record_vector_def sample_record_def record_xray_def record_angina_def
      record_ecg_def record_opposite_def record_corrupt_def record_empty_def)



lemma embedding_run_one: "search_records (backend_embeds [1, 0]) ''cardiac'' [record_angina] 5 (3 / 10)
   = Inr [\<lparr>result_record = record_angina, similarity = 1\<rparr>]"
  by (simp add: search_records_def embed_text_def backend_embeds_def sample_vectors cos_same
      sort_by_similarity_def slice_to_def)

lemma embedding_path_sample: "embedding_path (backend_embeds [1, 0]) ''cardiac''"
  by (simp add: embedding_path_def embed_text_def backend_embeds_def)


subsection \<open>Properties of the search\<close>










text \<open>
  C10. On the embedding path a record has no usable embedding when its \<open>embedding\<close>
  entry is missing or \<open>None\<close>, an empty list, an empty string, or a string that does
  not decode. Such records are passed over: the search over all records is the search
  over the records with a usable embedding, also as to whether it raises; every result
  of a search is one of the given records and has a usable embedding; and every record
  returned by \<open>search_and_summarize\<close> or \<open>answer_question\<close> is such a result with
  its embedding removed.
\<close>

theorem unusable_embeddings_excluded:
  assumes "embedding_path backend query"
  shows "search_records backend query records top_k min_similarity
           = search_records backend query
               (filter (\<lambda>r. record_vector r \<noteq> None) records) top_k min_similarity
       \<and> (\<forall>results. search_records backend query records top_k min_similarity = Inr results
             \<longrightarrow> (\<forall>x \<in> set results. result_record x \<in> set records
                     \<and> record_vector (result_record x) \<noteq> None))
       \<and> (\<forall>out. search_and_summarize backend query records patient_name top_k = Inr out
             \<longrightarrow> (\<forall>x \<in> set (s_records out). \<exists>y. x = clean_record y
                     \<and> result_record y \<in> set records
                     \<and> record_vector (result_record y) \<noteq> None))
       \<and> (\<forall>out. answer_question backend query records patient_name = Inr out
             \<longrightarrow> (\<forall>x \<in> set (supporting_records out). \<exists>y. x = clean_record y
                     \<and> result_record y \<in> set records
                     \<and> record_vector (result_record y) \<noteq> None))
       \<and> (record_vector r = None \<longleftrightarrow>
             embedding r = NoEmbedding \<or> embedding r = EmbeddingList []
             \<or> (\<exists>d. embedding r = EmbeddingStr [] d) \<or> (\<exists>s. embedding r = EmbeddingStr s None))"
proof -
  have f: "search_records backend query records top_k min_similarity
           = search_records backend query
               (filter (\<lambda>r. record_vector r \<noteq> None) records) top_k min_similarity"
    using search_records_filter [OF assms] by simp
  have s: "\<forall>results. search_records backend query records top_k min_similarity = Inr results
             \<longrightarrow> (\<forall>x \<in> set results. result_record x \<in> set records
                     \<and> record_vector (result_record x) \<noteq> None)"
    using search_records_usable [OF assms] by blast
  have sm: "\<forall>out. search_and_summarize backend query records patient_name top_k = Inr out
             \<longrightarrow> (\<forall>x \<in> set (s_records out). \<exists>y. x = clean_record y
                     \<and> result_record y \<in> set records
                     \<and> record_vector (result_record y) \<noteq> None)"
  proof (intro allI impI ballI)
    fix out x
    assume o: "search_and_summarize backend query records patient_name top_k = Inr out"
      and x: "x \<in> set (s_records out)"
    from summarize_records [OF o x] obtain results y where
      r: "search_records backend query records top_k (3 / 10) = Inr results"
      and y: "y \<in> set results" and xy: "x = clean_record y"
      by blast
    from search_records_usable [OF assms r y] xy
    show "\<exists>y. x = clean_record y \<and> result_record y \<in> set records
            \<and> record_vector (result_record y) \<noteq> None"
      by blast
  qed
  have an: "\<forall>out. answer_question backend query records patient_name = Inr out
             \<longrightarrow> (\<forall>x \<in> set (supporting_records out). \<exists>y. x = clean_record y
                     \<and> result_record y \<in> set records
                     \<and> record_vector (result_record y) \<noteq> None)"
  proof (intro allI impI ballI)
    fix out x
    assume o: "answer_question backend query records patient_name = Inr out"
      and x: "x \<in> set (supporting_records out)"
    from answer_records [OF o x] obtain results y where
      r: "search_records backend query records 5 (3 / 10) = Inr results"
      and y: "y \<in> set results" and xy: "x = clean_record y"
      by blast
    from search_records_usable [OF assms r y] xy
    show "\<exists>y. x = clean_record y \<and> result_record y \<in> set records
            \<and> record_vector (result_record y) \<noteq> None"
      by blast
  qed
  from f s sm an record_vector_None_iff [of r] show ?thesis by blast
qed

theorem unusable_embeddings_excluded_witness:
  "embedding_path (backend_embeds [1, 0]) ''cardiac''
   \<and> filter (\<lambda>r. record_vector r \<noteq> None)
        [record_xray, record_empty, record_angina, record_corrupt] = [record_angina]
   \<and> search_records (backend_embeds [1, 0]) ''cardiac''
        [record_xray, record_empty, record_angina, record_corrupt] 5 (3 / 10)
       = Inr [\<lparr>result_record = record_angina, similarity = 1\<rparr>]"
proof -
  have flt: "filter (\<lambda>r. record_vector r \<noteq> None)
        [record_xray, record_empty, record_angina, record_corrupt] = [record_angina]"
    by (simp add: sample_vectors)
  from unusable_embeddings_excluded [OF embedding_path_sample,
      of "[record_xray, record_empty, record_angina, record_corrupt]" 5 "3 / 10"]
  have "search_records (backend_embeds [1, 0]) ''cardiac''
        [record_xray, record_empty, record_angina, record_corrupt] 5 (3 / 10)
       = search_records (backend_embeds [1, 0]) ''cardiac''
           (filter (\<lambda>r. record_vector r \<noteq> None)
              [record_xray, record_empty, record_angina, record_corrupt]) 5 (3 / 10)"
    by blast
  then have "search_records (backend_embeds [1, 0]) ''cardiac''
        [record_xray, record_empty, record_angina, record_corrupt] 5 (3 / 10)
       = Inr [\<lparr>result_record = record_angina, similarity = 1\<rparr>]"
    unfolding flt by (simp only: embedding_run_one)
  with embedding_path_sample flt show ?thesis by blast
qed

end
